theory Spec2Isabelle
  imports Main "HOL-Library.Multiset"
begin

section \<open>Achievements ticker (src/ticker.js)\<close>

text \<open>
  A shallow embedding of the class \<^verbatim>\<open>AchievementsTicker\<close>. The instance fields and the
  part of the browser the class touches (the two DOM elements it looks up, the viewport
  width, the console, the registered listeners) form one state record; every method is a
  function from state to state. DOM elements are objects shared between the document and
  the field \<^verbatim>\<open>this.tickerTrack\<close>, so they live in a store indexed by references.
\<close>

subsection \<open>Data model\<close>

text \<open>One entry of \<^verbatim>\<open>achievements.json\<close>: \<^verbatim>\<open>{id, text, category, priority}\<close>.\<close>

record achievement =
  id' :: string
  text' :: string
  category :: string
  priority :: int

text \<open>The \<^verbatim>\<open>div\<close> built by \<^verbatim>\<open>createTickerItems\<close>: its class, its three attributes and its text.\<close>

record ticker_item =
  className :: string
  data_category :: string
  data_id :: string
  textContent :: string
  title :: string

text \<open>
  An element of the host page, as far as the class reads or writes it: its children, the
  three inline style properties the class sets, and how many listeners the class has
  added for the two pointer events.
\<close>

record element =
  children :: "ticker_item list"
  animationPlayState :: string
  animationDuration :: string
  opacity :: string
  mouseenter_listeners :: nat
  mouseleave_listeners :: nat

type_synonym ref = nat

datatype error = NetworkError | HttpError nat | SyntaxError | TypeError

datatype log_entry =
    Log_loaded nat
  | Log_item nat string int
  | Error_loading error
  | Error_track_not_found

record ticker =
  achievementsData :: "achievement list"
  tickerTrack :: "ref option"
  isLoaded :: bool
  animationSpeed :: int
  heap :: "ref \<Rightarrow> element"
  ticker_track_el :: "ref option"
  container_el :: "ref option"
  innerWidth :: int
  resize_listeners :: nat
  pending_timeouts :: nat
  console :: "log_entry list"

text \<open>
  \<open>ticker_track_el\<close> is what \<^verbatim>\<open>document.getElementById('ticker-track')\<close> returns and
  \<open>container_el\<close> what \<^verbatim>\<open>document.querySelector('.achievements-ticker-container')\<close>
  returns (\<open>None\<close> for \<^verbatim>\<open>null\<close>).
\<close>

subsection \<open>Numbers in template literals\<close>

text \<open>\<^verbatim>\<open>`${n}`\<close> for an integer \<open>n\<close>: its decimal digits, with a minus sign when negative.\<close>

definition digit :: "nat \<Rightarrow> char" where
  "digit d =
     (if d = 0 then CHR ''0'' else if d = 1 then CHR ''1'' else if d = 2 then CHR ''2''
      else if d = 3 then CHR ''3'' else if d = 4 then CHR ''4'' else if d = 5 then CHR ''5''
      else if d = 6 then CHR ''6'' else if d = 7 then CHR ''7'' else if d = 8 then CHR ''8''
      else CHR ''9'')"

fun decimal :: "nat \<Rightarrow> string" where
  "decimal n = (if 10 \<le> n then decimal (n div 10) @ [digit (n mod 10)] else [digit n])"

declare decimal.simps [simp del]

definition Number_toString :: "int \<Rightarrow> string" where
  "Number_toString i = (if 0 \<le> i then decimal (nat i) else CHR ''-'' # decimal (nat (- i)))"

subsection \<open>Array.prototype.sort\<close>

text \<open>
  \<^verbatim>\<open>xs.sort(cmp)\<close>: ECMAScript requires the sort to be stable, and for a consistent
  comparator the result is then determined; it is computed here by insertion, an element
  going in front of the first later element it does not exceed.
\<close>

fun Array_insert :: "('a \<Rightarrow> 'a \<Rightarrow> int) \<Rightarrow> 'a \<Rightarrow> 'a list \<Rightarrow> 'a list" where
  "Array_insert cmp x [] = [x]"
| "Array_insert cmp x (y # ys) =
     (if cmp x y \<le> 0 then x # y # ys else y # Array_insert cmp x ys)"

fun Array_sort :: "('a \<Rightarrow> 'a \<Rightarrow> int) \<Rightarrow> 'a list \<Rightarrow> 'a list" where
  "Array_sort cmp [] = []"
| "Array_sort cmp (x # xs) = Array_insert cmp x (Array_sort cmp xs)"

text \<open>The comparator of the source: \<^verbatim>\<open>(a, b) => a.priority - b.priority\<close>.\<close>

definition by_priority :: "achievement \<Rightarrow> achievement \<Rightarrow> int" where
  "by_priority a b = priority a - priority b"

subsection \<open>loadAchievements\<close>

text \<open>
  What \<^verbatim>\<open>data.achievements\<close> can evaluate to after \<^verbatim>\<open>response.json()\<close>: \<open>Undefined\<close> when
  the property is absent, any JSON value otherwise. An array holds records of the
  expected shape.
\<close>

datatype js_value =
    Undefined
  | Null
  | Boolean bool
  | Number int
  | String string
  | Object
  | Array "achievement list"

text \<open>
  The body of the response: not parseable as JSON (\<^verbatim>\<open>response.json()\<close> rejects), the JSON
  value \<^verbatim>\<open>null\<close> (reading a property of it throws), or any other JSON value, given by what
  its property \<^verbatim>\<open>achievements\<close> evaluates to.
\<close>

datatype body = Unparseable | Parsed_null | Parsed js_value

text \<open>The outcome of \<^verbatim>\<open>fetch\<close>: the promise rejects, or a response with a status and a body.\<close>

datatype fetch_outcome = Rejected | Response nat body

text \<open>\<^verbatim>\<open>response.ok\<close>: the status is in the range 200 to 299.\<close>

definition ok :: "nat \<Rightarrow> bool" where
  "ok status = (200 \<le> status \<and> status \<le> 299)"

text \<open>Truthiness, as \<^verbatim>\<open>||\<close> tests it.\<close>

fun truthy :: "js_value \<Rightarrow> bool" where
  "truthy Undefined = False"
| "truthy Null = False"
| "truthy (Boolean b) = b"
| "truthy (Number n) = (n \<noteq> 0)"
| "truthy (String s) = (s \<noteq> [])"
| "truthy Object = True"
| "truthy (Array xs) = True"

text \<open>The \<^verbatim>\<open>forEach\<close> that logs each record with its 1-based position.\<close>

fun log_items :: "nat \<Rightarrow> achievement list \<Rightarrow> log_entry list" where
  "log_items index [] = []"
| "log_items index (achievement # rest) =
     Log_item (index + 1) (text' achievement) (priority achievement) # log_items (index + 1) rest"

text \<open>
  The \<^verbatim>\<open>try\<close> block. A value that is not an array has no method \<^verbatim>\<open>sort\<close>, so the call
  throws a TypeError. The one assignment made before a throw is to \<^verbatim>\<open>achievementsData\<close>,
  which the \<^verbatim>\<open>catch\<close> block overwrites, so an error carries no state.
\<close>

fun loadAchievements_try :: "fetch_outcome \<Rightarrow> ticker \<Rightarrow> error + ticker" where
  "loadAchievements_try Rejected st = Inl NetworkError"
| "loadAchievements_try (Response status b) st =
     (if \<not> ok status then Inl (HttpError status)
      else case b of
        Unparseable \<Rightarrow> Inl SyntaxError
      | Parsed_null \<Rightarrow> Inl TypeError
      | Parsed v \<Rightarrow>
          (case (if truthy v then v else Array []) of
             Array xs \<Rightarrow>
               (let sorted_data = Array_sort by_priority xs
                in Inr (st\<lparr>achievementsData := sorted_data,
                           console := console st @ [Log_loaded (length sorted_data)]
                                        @ log_items 0 sorted_data\<rparr>))
           | _ \<Rightarrow> Inl TypeError))"

text \<open>
  The records of the \<^verbatim>\<open>catch\<close> block. Each text starts with an emoji, written here as the
  four bytes of its UTF-8 encoding.
\<close>

definition fallback :: "achievement list" where
  "fallback =
     [\<lparr>id' = ''fallback-1'',
       text' = CHR 0xF0 # CHR 0x9F # CHR 0x8F # CHR 0x86 #
         '' Microsoft Azure Developer Associate (AZ-204) - Scored 828/1000'',
       category = ''certification'',
       priority = 1\<rparr>,
      \<lparr>id' = ''fallback-2'',
       text' = CHR 0xF0 # CHR 0x9F # CHR 0x9A # CHR 0x80 #
         '' Created ARIA - AI-Powered Interview Platform'',
       category = ''project'',
       priority = 1\<rparr>,
      \<lparr>id' = ''fallback-3'',
       text' = CHR 0xF0 # CHR 0x9F # CHR 0x92 # CHR 0xBC #
         '' 1.4 Years Experience as Java Full Stack Developer'',
       category = ''experience'',
       priority = 1\<rparr>]"

definition loadAchievements :: "fetch_outcome \<Rightarrow> ticker \<Rightarrow> ticker" where
  "loadAchievements outcome st =
     (case loadAchievements_try outcome st of
        Inr st' \<Rightarrow> st'
      | Inl e \<Rightarrow> st\<lparr>achievementsData := fallback,
                     console := console st @ [Error_loading e]\<rparr>)"

subsection \<open>Rendering\<close>

definition createTickerItem :: "achievement \<Rightarrow> ticker_item" where
  "createTickerItem achievement =
     \<lparr>className = ''ticker-item priority-'' @ Number_toString (priority achievement),
      data_category = category achievement,
      data_id = id' achievement,
      textContent = text' achievement,
      title = text' achievement\<rparr>"

definition createTickerItems :: "ticker \<Rightarrow> ticker_item list" where
  "createTickerItems st = map createTickerItem (achievementsData st)"

text \<open>\<^verbatim>\<open>item.cloneNode(true)\<close>: a new element with the same class, attributes and text.\<close>

definition cloneNode :: "ticker_item \<Rightarrow> ticker_item" where
  "cloneNode item =
     \<lparr>className = className item,
      data_category = data_category item,
      data_id = data_id item,
      textContent = textContent item,
      title = title item\<rparr>"

definition appendChild :: "ref \<Rightarrow> ticker_item \<Rightarrow> ticker \<Rightarrow> ticker" where
  "appendChild a item st =
     st\<lparr>heap := (heap st)(a := (heap st a)\<lparr>children := children (heap st a) @ [item]\<rparr>)\<rparr>"

definition pauseAnimation :: "ticker \<Rightarrow> ticker" where
  "pauseAnimation st =
     (case tickerTrack st of
        None \<Rightarrow> st
      | Some a \<Rightarrow> st\<lparr>heap := (heap st)(a := (heap st a)\<lparr>animationPlayState := ''paused''\<rparr>)\<rparr>)"

definition resumeAnimation :: "ticker \<Rightarrow> ticker" where
  "resumeAnimation st =
     (case tickerTrack st of
        None \<Rightarrow> st
      | Some a \<Rightarrow> st\<lparr>heap := (heap st)(a := (heap st a)\<lparr>animationPlayState := ''running''\<rparr>)\<rparr>)"

definition handleResponsiveSpeed :: "ticker \<Rightarrow> ticker" where
  "handleResponsiveSpeed st =
     (let width = innerWidth st;
          speed = (if width \<le> 480 then 15 else if width \<le> 768 then 20 else animationSpeed st)
      in case tickerTrack st of
           None \<Rightarrow> st
         | Some a \<Rightarrow>
             st\<lparr>heap := (heap st)(a := (heap st a)\<lparr>animationDuration := Number_toString speed @ ''s''\<rparr>)\<rparr>)"

text \<open>
  Each call adds three new listeners (the arrow functions are new objects every time),
  and evaluates the speed rule once.
\<close>

definition setupEventListeners :: "ticker \<Rightarrow> ticker" where
  "setupEventListeners st =
     (case tickerTrack st of
        None \<Rightarrow> st
      | Some a \<Rightarrow>
          (let st1 = st\<lparr>heap := (heap st)(a := (heap st a)
                         \<lparr>mouseenter_listeners := Suc (mouseenter_listeners (heap st a)),
                          mouseleave_listeners := Suc (mouseleave_listeners (heap st a))\<rparr>)\<rparr>;
               st2 = handleResponsiveSpeed st1
           in st2\<lparr>resize_listeners := Suc (resize_listeners st2)\<rparr>))"

definition setupTicker :: "ticker \<Rightarrow> ticker" where
  "setupTicker st =
     (let st1 = st\<lparr>tickerTrack := ticker_track_el st\<rparr>
      in case tickerTrack st1 of
           None \<Rightarrow> st1\<lparr>console := console st1 @ [Error_track_not_found]\<rparr>
         | Some a \<Rightarrow>
             (let st2 = st1\<lparr>heap := (heap st1)(a := (heap st1 a)\<lparr>children := []\<rparr>)\<rparr>;
                  tickerItems = createTickerItems st2;
                  st3 = foldl (\<lambda>s item. appendChild a item s) st2 tickerItems;
                  st4 = foldl (\<lambda>s item. appendChild a (cloneNode item) s) st3 tickerItems
              in setupEventListeners st4))"

text \<open>
  \<^verbatim>\<open>startTicker\<close> fades the container in and schedules the fade-in of the track;
  \<open>fade_in\<close> is the scheduled callback, and \<open>timeout\<close> is one pending timer firing.
\<close>

definition startTicker :: "ticker \<Rightarrow> ticker" where
  "startTicker st =
     (let st1 = (case container_el st of
                   None \<Rightarrow> st
                 | Some c \<Rightarrow> st\<lparr>heap := (heap st)(c := (heap st c)\<lparr>opacity := ''1''\<rparr>),
                                isLoaded := True\<rparr>)
      in st1\<lparr>pending_timeouts := Suc (pending_timeouts st1)\<rparr>)"

definition fade_in :: "ticker \<Rightarrow> ticker" where
  "fade_in st =
     (case tickerTrack st of
        None \<Rightarrow> st
      | Some a \<Rightarrow> st\<lparr>heap := (heap st)(a := (heap st a)\<lparr>opacity := ''1''\<rparr>)\<rparr>)"

definition timeout :: "ticker \<Rightarrow> ticker" where
  "timeout st =
     (if pending_timeouts st = 0 then st
      else fade_in (st\<lparr>pending_timeouts := pending_timeouts st - 1\<rparr>))"

subsection \<open>Construction\<close>

text \<open>
  The constructor sets the four fields and starts \<^verbatim>\<open>init\<close>, which suspends at the fetch;
  \<open>init\<close> is the rest of it, run with the outcome of the fetch. None of the three calls
  throws, so the \<^verbatim>\<open>catch\<close> of \<^verbatim>\<open>init\<close> has no branch here.
\<close>

definition constructor :: "ticker \<Rightarrow> ticker" where
  "constructor st =
     st\<lparr>achievementsData := [], tickerTrack := None, isLoaded := False, animationSpeed := 30\<rparr>"

definition init :: "fetch_outcome \<Rightarrow> ticker \<Rightarrow> ticker" where
  "init outcome st = startTicker (setupTicker (loadAchievements outcome st))"

subsection \<open>Public methods\<close>

definition updateAchievements :: "achievement list \<Rightarrow> ticker \<Rightarrow> ticker" where
  "updateAchievements newAchievements st = setupTicker (st\<lparr>achievementsData := newAchievements\<rparr>)"

definition addAchievement :: "achievement \<Rightarrow> ticker \<Rightarrow> ticker" where
  "addAchievement achievement st =
     setupTicker (st\<lparr>achievementsData :=
       Array_sort by_priority (achievementsData st @ [achievement])\<rparr>)"

definition removeAchievement :: "string \<Rightarrow> ticker \<Rightarrow> ticker" where
  "removeAchievement achievementId st =
     setupTicker (st\<lparr>achievementsData :=
       filter (\<lambda>achievement. id' achievement \<noteq> achievementId) (achievementsData st)\<rparr>)"

definition filterByCategory :: "string \<Rightarrow> ticker \<Rightarrow> ticker" where
  "filterByCategory c st =
     (let filteredData =
            (if c = ''all'' then achievementsData st
             else filter (\<lambda>achievement. category achievement = c) (achievementsData st))
      in updateAchievements filteredData st)"

subsection \<open>Events\<close>

text \<open>
  A resize of the viewport to a new width runs every registered resize listener, each of
  which calls \<^verbatim>\<open>handleResponsiveSpeed\<close>; pointer events on an element run the listeners
  added to that element.
\<close>

definition resize :: "int \<Rightarrow> ticker \<Rightarrow> ticker" where
  "resize w st = (handleResponsiveSpeed ^^ resize_listeners st) (st\<lparr>innerWidth := w\<rparr>)"

definition mouseenter :: "ref \<Rightarrow> ticker \<Rightarrow> ticker" where
  "mouseenter a st = (pauseAnimation ^^ mouseenter_listeners (heap st a)) st"

definition mouseleave :: "ref \<Rightarrow> ticker \<Rightarrow> ticker" where
  "mouseleave a st = (resumeAnimation ^^ mouseleave_listeners (heap st a)) st"

subsection \<open>Sequences of calls\<close>

text \<open>
  Every method of the class and every event it listens to, as a value, so that the states
  the widget can reach after construction are the results of \<open>run\<close>.
\<close>

datatype call =
    Init fetch_outcome
  | LoadAchievements fetch_outcome
  | SetupTicker
  | SetupEventListeners
  | StartTicker
  | PauseAnimation
  | ResumeAnimation
  | HandleResponsiveSpeed
  | UpdateAchievements "achievement list"
  | AddAchievement achievement
  | RemoveAchievement string
  | FilterByCategory string
  | Resize int
  | Mouseenter ref
  | Mouseleave ref
  | Timeout

fun perform :: "call \<Rightarrow> ticker \<Rightarrow> ticker" where
  "perform (Init outcome) st = init outcome st"
| "perform (LoadAchievements outcome) st = loadAchievements outcome st"
| "perform SetupTicker st = setupTicker st"
| "perform SetupEventListeners st = setupEventListeners st"
| "perform StartTicker st = startTicker st"
| "perform PauseAnimation st = pauseAnimation st"
| "perform ResumeAnimation st = resumeAnimation st"
| "perform HandleResponsiveSpeed st = handleResponsiveSpeed st"
| "perform (UpdateAchievements newAchievements) st = updateAchievements newAchievements st"
| "perform (AddAchievement achievement) st = addAchievement achievement st"
| "perform (RemoveAchievement achievementId) st = removeAchievement achievementId st"
| "perform (FilterByCategory c) st = filterByCategory c st"
| "perform (Resize w) st = resize w st"
| "perform (Mouseenter a) st = mouseenter a st"
| "perform (Mouseleave a) st = mouseleave a st"
| "perform Timeout st = timeout st"

definition run :: "call list \<Rightarrow> ticker \<Rightarrow> ticker" where
  "run calls st = foldl (\<lambda>s c. perform c s) st calls"

subsection \<open>Reading a rendered element\<close>

text \<open>
  The priority an element displays is the number in its class \<^verbatim>\<open>priority-N\<close>;
  \<open>priority_of_item\<close> reads it back, so that the order of rendered elements can be
  stated on the elements themselves.
\<close>

definition nat_of_string :: "string \<Rightarrow> nat" where
  "nat_of_string s = foldl (\<lambda>n c. 10 * n + (of_char c - 48)) 0 s"

definition int_of_string :: "string \<Rightarrow> int" where
  "int_of_string s =
     (case s of
        [] \<Rightarrow> 0
      | c # ds \<Rightarrow> if c = CHR ''-'' then - int (nat_of_string ds) else int (nat_of_string s))"

definition priority_of_item :: "ticker_item \<Rightarrow> int" where
  "priority_of_item item =
     int_of_string (drop (length ''ticker-item priority-'') (className item))"

text \<open>The two back-to-back copies of a rendered track: its first and its second half.\<close>

definition first_copy :: "element \<Rightarrow> ticker_item list" where
  "first_copy e = take (length (children e) div 2) (children e)"

definition second_copy :: "element \<Rightarrow> ticker_item list" where
  "second_copy e = drop (length (children e) div 2) (children e)"

subsection \<open>Conditions the properties speak of\<close>

text \<open>
  A failing fetch: the promise rejects, the status is outside 200 to 299, or the body is
  not parseable.
\<close>

fun failing :: "fetch_outcome \<Rightarrow> bool" where
  "failing Rejected = True"
| "failing (Response status b) = (\<not> ok status \<or> b = Unparseable)"

text \<open>A call that installs a collection verbatim installs one in priority order.\<close>

fun ordered_call :: "call \<Rightarrow> bool" where
  "ordered_call (UpdateAchievements newAchievements) = sorted (map priority newAchievements)"
| "ordered_call _ = True"

subsection \<open>Example inputs\<close>

text \<open>
  A host page with the track at reference 0 and the container at reference 1, both
  without children or inline styles, and a viewport 1024 wide.
\<close>

definition blank_element :: element where
  "blank_element =
     \<lparr>children = [], animationPlayState = [], animationDuration = [], opacity = [],
      mouseenter_listeners = 0, mouseleave_listeners = 0\<rparr>"

definition page :: ticker where
  "page =
     \<lparr>achievementsData = [], tickerTrack = None, isLoaded = False, animationSpeed = 0,
      heap = (\<lambda>_. blank_element), ticker_track_el = Some 0, container_el = Some 1,
      innerWidth = 1024, resize_listeners = 0, pending_timeouts = 0, console = []\<rparr>"

text \<open>The payload of the specification's scenario, served with status 200.\<close>

definition record_a :: achievement where
  "record_a = \<lparr>id' = ''a'', text' = ''X'', category = ''c'', priority = 2\<rparr>"

definition record_b :: achievement where
  "record_b = \<lparr>id' = ''b'', text' = ''Y'', category = ''c'', priority = 1\<rparr>"

definition scenario :: fetch_outcome where
  "scenario = Response 200 (Parsed (Array [record_a, record_b]))"

subsection \<open>Invariant and specification of the speed rule\<close>

text \<open>
  Once a track has been found, \<^verbatim>\<open>this.tickerTrack\<close> is the element of the document and a
  resize listener is registered.
\<close>

definition attached :: "ticker \<Rightarrow> bool" where
  "attached st =
     (tickerTrack st = None \<or> (tickerTrack st = ticker_track_el st \<and> 0 < resize_listeners st))"

text \<open>
  The rule as the specification words it: width at most 480 gives 15s, width at most 768
  gives 20s, any other width 30s.
\<close>

definition spec_duration :: "int \<Rightarrow> string" where
  "spec_duration w = (if w \<le> 480 then ''15s'' else if w \<le> 768 then ''20s'' else ''30s'')"

section \<open>Auxiliary facts\<close>

subsection \<open>Numbers, sorting, cloning\<close>

lemma of_char_digit: "d < 10 \<Longrightarrow> of_char (digit d) - 48 = (d::nat)"
  by (auto simp: digit_def)

lemma digit_not_minus: "digit d \<noteq> CHR ''-''"
  by (simp add: digit_def)

lemma foldl_digits_append:
  "foldl (\<lambda>n c. 10 * n + (of_char c - 48)) k (xs @ [c]) =
   10 * foldl (\<lambda>n c. 10 * n + (of_char c - 48)) k xs + (of_char c - (48::nat))"
  by simp

lemma nat_of_string_decimal: "nat_of_string (decimal n) = n"
proof (induction n rule: decimal.induct)
  case (1 n)
  show ?case
  proof (cases "10 \<le> n")
    case False
    then show ?thesis
      by (subst decimal.simps) (simp add: nat_of_string_def of_char_digit)
  next
    case True
    then have "nat_of_string (decimal n) =
        10 * nat_of_string (decimal (n div 10)) + (of_char (digit (n mod 10)) - 48)"
      by (subst decimal.simps) (simp add: nat_of_string_def)
    also have "\<dots> = 10 * (n div 10) + n mod 10"
      using 1 True by (simp add: of_char_digit)
    finally show ?thesis by simp
  qed
qed

lemma decimal_starts_with_digit: "\<exists>d ds. decimal n = digit d # ds"
proof (induction n rule: decimal.induct)
  case (1 n)
  show ?case
  proof (cases "10 \<le> n")
    case False
    then have "decimal n = digit n # []" by (subst decimal.simps) simp
    then show ?thesis by blast
  next
    case True
    with 1 obtain d ds where "decimal (n div 10) = digit d # ds" by blast
    with True have "decimal n = digit d # (ds @ [digit (n mod 10)])"
      by (subst decimal.simps) simp
    then show ?thesis by blast
  qed
qed

lemma int_of_string_Number_toString: "int_of_string (Number_toString i) = i"
proof (cases "0 \<le> i")
  case False
  then show ?thesis
    by (simp add: int_of_string_def Number_toString_def nat_of_string_decimal)
next
  case True
  obtain d ds where h: "decimal (nat i) = digit d # ds"
    using decimal_starts_with_digit by blast
  have "int_of_string (decimal (nat i)) = int (nat_of_string (decimal (nat i)))"
    unfolding h by (simp add: int_of_string_def digit_not_minus)
  with True show ?thesis
    by (simp add: Number_toString_def nat_of_string_decimal)
qed

lemma priority_of_createTickerItem: "priority_of_item (createTickerItem r) = priority r"
  by (simp add: priority_of_item_def createTickerItem_def int_of_string_Number_toString)

lemma cloneNode_same: "cloneNode item = item"
  by (simp add: cloneNode_def)

lemma Array_insert_by_priority: "Array_insert by_priority x ys = insort_key priority x ys"
  by (induction ys) (simp_all add: by_priority_def)

lemma Array_sort_by_priority: "Array_sort by_priority xs = sort_key priority xs"
  by (induction xs) (simp_all add: Array_insert_by_priority)

lemma sorted_Array_sort: "sorted (map priority (Array_sort by_priority xs))"
  by (simp add: Array_sort_by_priority)

lemma mset_Array_sort: "mset (Array_sort by_priority xs) = mset xs"
  by (simp add: Array_sort_by_priority)

lemma stable_Array_sort:
  "filter (\<lambda>r. priority r = k) (Array_sort by_priority xs) = filter (\<lambda>r. priority r = k) xs"
  by (simp add: Array_sort_by_priority sort_key_stable)

lemma filter_Array_sort:
  "filter P (Array_sort by_priority xs) = Array_sort by_priority (filter P xs)"
  by (simp add: Array_sort_by_priority filter_sort)

lemma Array_sort_sorted: "sorted (map priority xs) \<Longrightarrow> Array_sort by_priority xs = xs"
  by (simp add: Array_sort_by_priority sort_key_id_if_sorted)

lemma sorted_filter_priority: "sorted (map priority xs) \<Longrightarrow> sorted (map priority (filter P xs))"
  by (rule sorted_filter)

subsection \<open>Effects of the methods\<close>

lemma foldl_appendChild:
  "foldl (\<lambda>s item. appendChild a (f item) s) st xs =
   st\<lparr>heap := (heap st)(a := (heap st a)\<lparr>children := children (heap st a) @ map f xs\<rparr>)\<rparr>"
  by (induction xs arbitrary: st) (simp_all add: appendChild_def)

lemma setupTicker_found:
  "ticker_track_el st = Some a \<Longrightarrow>
   setupTicker st =
     st\<lparr>tickerTrack := Some a,
        heap := (heap st)(a := (heap st a)
          \<lparr>children := map createTickerItem (achievementsData st)
                        @ map (\<lambda>x. cloneNode (createTickerItem x)) (achievementsData st),
           mouseenter_listeners := Suc (mouseenter_listeners (heap st a)),
           mouseleave_listeners := Suc (mouseleave_listeners (heap st a)),
           animationDuration := Number_toString
             (if innerWidth st \<le> 480 then 15 else if innerWidth st \<le> 768 then 20
              else animationSpeed st) @ ''s''\<rparr>),
        resize_listeners := Suc (resize_listeners st)\<rparr>"
  using foldl_appendChild[where f="\<lambda>x. x"] foldl_appendChild[where f=cloneNode]
  by (simp add: setupTicker_def Let_def createTickerItems_def setupEventListeners_def
      handleResponsiveSpeed_def o_def)

lemma setupTicker_missing:
  "ticker_track_el st = None \<Longrightarrow>
   setupTicker st = st\<lparr>tickerTrack := None, console := console st @ [Error_track_not_found]\<rparr>"
  by (simp add: setupTicker_def Let_def)

lemma setupTicker_fields:
  "achievementsData (setupTicker st) = achievementsData st"
  "animationSpeed (setupTicker st) = animationSpeed st"
  "ticker_track_el (setupTicker st) = ticker_track_el st"
  "innerWidth (setupTicker st) = innerWidth st"
  "tickerTrack (setupTicker st) = ticker_track_el st"
  by (cases "ticker_track_el st"; simp add: setupTicker_found setupTicker_missing)+

lemma setupTicker_listening:
  "tickerTrack (setupTicker st) = Some a \<Longrightarrow> 0 < resize_listeners (setupTicker st)"
  by (cases "ticker_track_el st") (simp_all add: setupTicker_found setupTicker_missing)

lemma handleResponsiveSpeed_fields:
  "achievementsData (handleResponsiveSpeed st) = achievementsData st"
  "animationSpeed (handleResponsiveSpeed st) = animationSpeed st"
  "ticker_track_el (handleResponsiveSpeed st) = ticker_track_el st"
  "innerWidth (handleResponsiveSpeed st) = innerWidth st"
  "tickerTrack (handleResponsiveSpeed st) = tickerTrack st"
  "resize_listeners (handleResponsiveSpeed st) = resize_listeners st"
  by (simp_all add: handleResponsiveSpeed_def Let_def split: option.split)

lemma pauseAnimation_fields:
  "achievementsData (pauseAnimation st) = achievementsData st"
  "animationSpeed (pauseAnimation st) = animationSpeed st"
  "ticker_track_el (pauseAnimation st) = ticker_track_el st"
  "innerWidth (pauseAnimation st) = innerWidth st"
  "tickerTrack (pauseAnimation st) = tickerTrack st"
  "resize_listeners (pauseAnimation st) = resize_listeners st"
  by (simp_all add: pauseAnimation_def split: option.split)

lemma resumeAnimation_fields:
  "achievementsData (resumeAnimation st) = achievementsData st"
  "animationSpeed (resumeAnimation st) = animationSpeed st"
  "ticker_track_el (resumeAnimation st) = ticker_track_el st"
  "innerWidth (resumeAnimation st) = innerWidth st"
  "tickerTrack (resumeAnimation st) = tickerTrack st"
  "resize_listeners (resumeAnimation st) = resize_listeners st"
  by (simp_all add: resumeAnimation_def split: option.split)

lemma fade_in_fields:
  "achievementsData (fade_in st) = achievementsData st"
  "animationSpeed (fade_in st) = animationSpeed st"
  "ticker_track_el (fade_in st) = ticker_track_el st"
  "innerWidth (fade_in st) = innerWidth st"
  "tickerTrack (fade_in st) = tickerTrack st"
  "resize_listeners (fade_in st) = resize_listeners st"
  by (simp_all add: fade_in_def split: option.split)

lemma timeout_fields:
  "achievementsData (timeout st) = achievementsData st"
  "animationSpeed (timeout st) = animationSpeed st"
  "ticker_track_el (timeout st) = ticker_track_el st"
  "innerWidth (timeout st) = innerWidth st"
  "tickerTrack (timeout st) = tickerTrack st"
  "resize_listeners (timeout st) = resize_listeners st"
  by (simp_all add: timeout_def fade_in_fields)

lemma startTicker_fields:
  "achievementsData (startTicker st) = achievementsData st"
  "animationSpeed (startTicker st) = animationSpeed st"
  "ticker_track_el (startTicker st) = ticker_track_el st"
  "innerWidth (startTicker st) = innerWidth st"
  "tickerTrack (startTicker st) = tickerTrack st"
  "resize_listeners (startTicker st) = resize_listeners st"
  by (simp_all add: startTicker_def Let_def split: option.split)

lemma setupEventListeners_fields:
  "achievementsData (setupEventListeners st) = achievementsData st"
  "animationSpeed (setupEventListeners st) = animationSpeed st"
  "ticker_track_el (setupEventListeners st) = ticker_track_el st"
  "innerWidth (setupEventListeners st) = innerWidth st"
  "tickerTrack (setupEventListeners st) = tickerTrack st"
  by (simp_all add: setupEventListeners_def Let_def handleResponsiveSpeed_fields split: option.split)

lemma setupEventListeners_resize_listeners:
  "resize_listeners (setupEventListeners st) =
     (case tickerTrack st of None \<Rightarrow> resize_listeners st | Some a \<Rightarrow> Suc (resize_listeners st))"
  by (simp add: setupEventListeners_def Let_def handleResponsiveSpeed_fields split: option.split)

lemma loadAchievements_fields:
  "animationSpeed (loadAchievements outcome st) = animationSpeed st"
  "ticker_track_el (loadAchievements outcome st) = ticker_track_el st"
  "innerWidth (loadAchievements outcome st) = innerWidth st"
  "tickerTrack (loadAchievements outcome st) = tickerTrack st"
  "resize_listeners (loadAchievements outcome st) = resize_listeners st"
  "heap (loadAchievements outcome st) = heap st"
  by (cases outcome;
      simp add: loadAchievements_def Let_def split: body.split js_value.split)+

lemma funpow_fields:
  fixes f :: "ticker \<Rightarrow> ticker"
  assumes "\<And>s. achievementsData (f s) = achievementsData s"
    and "\<And>s. animationSpeed (f s) = animationSpeed s"
    and "\<And>s. ticker_track_el (f s) = ticker_track_el s"
    and "\<And>s. innerWidth (f s) = innerWidth s"
    and "\<And>s. tickerTrack (f s) = tickerTrack s"
    and "\<And>s. resize_listeners (f s) = resize_listeners s"
  shows "achievementsData ((f ^^ n) st) = achievementsData st"
    and "animationSpeed ((f ^^ n) st) = animationSpeed st"
    and "ticker_track_el ((f ^^ n) st) = ticker_track_el st"
    and "innerWidth ((f ^^ n) st) = innerWidth st"
    and "tickerTrack ((f ^^ n) st) = tickerTrack st"
    and "resize_listeners ((f ^^ n) st) = resize_listeners st"
  by (induction n) (simp_all add: assms)

lemmas handleResponsiveSpeed_funpow =
  funpow_fields [of handleResponsiveSpeed, OF handleResponsiveSpeed_fields]
lemmas pauseAnimation_funpow =
  funpow_fields [of pauseAnimation, OF pauseAnimation_fields]
lemmas resumeAnimation_funpow =
  funpow_fields [of resumeAnimation, OF resumeAnimation_fields]

lemma perform_animationSpeed: "animationSpeed (perform c st) = animationSpeed st"
  by (cases c)
     (simp_all add: init_def updateAchievements_def addAchievement_def removeAchievement_def
        filterByCategory_def Let_def resize_def mouseenter_def mouseleave_def
        setupTicker_fields startTicker_fields loadAchievements_fields
        handleResponsiveSpeed_fields pauseAnimation_fields resumeAnimation_fields
        fade_in_fields timeout_fields setupEventListeners_fields
        handleResponsiveSpeed_funpow pauseAnimation_funpow resumeAnimation_funpow)

lemma run_animationSpeed: "animationSpeed (run calls st) = animationSpeed st"
  unfolding run_def by (induction calls arbitrary: st) (simp_all add: perform_animationSpeed)

lemma attached_setupTicker: "attached (setupTicker st)"
  using setupTicker_listening [of st]
  by (cases "ticker_track_el st") (auto simp: attached_def setupTicker_fields)

lemma perform_attached: "attached st \<Longrightarrow> attached (perform c st)"
proof (cases c)
  case SetupEventListeners
  assume "attached st"
  then show ?thesis
    using SetupEventListeners
    by (auto simp add: attached_def setupEventListeners_fields
          setupEventListeners_resize_listeners split: option.splits)
next
  case (Init outcome)
  have "attached (setupTicker (loadAchievements outcome st))" by (rule attached_setupTicker)
  then show ?thesis using Init by (simp add: init_def attached_def startTicker_fields)
qed (simp_all add: attached_setupTicker updateAchievements_def addAchievement_def
      removeAchievement_def filterByCategory_def Let_def,
     simp_all add: attached_def resize_def mouseenter_def mouseleave_def
      startTicker_fields loadAchievements_fields
      handleResponsiveSpeed_fields pauseAnimation_fields resumeAnimation_fields fade_in_fields timeout_fields
      handleResponsiveSpeed_funpow pauseAnimation_funpow resumeAnimation_funpow)

lemma run_attached: "attached st \<Longrightarrow> attached (run calls st)"
  unfolding run_def by (induction calls arbitrary: st) (simp_all add: perform_attached)

lemma attached_constructor: "attached (constructor env)"
  by (simp add: attached_def constructor_def)

lemma Number_toString_speeds:
  "Number_toString 15 = ''15''" "Number_toString 20 = ''20''" "Number_toString 30 = ''30''"
  by (simp_all add: Number_toString_def decimal.simps digit_def)

lemma handleResponsiveSpeed_duration:
  "tickerTrack st = Some a \<Longrightarrow> animationSpeed st = 30 \<Longrightarrow>
   animationDuration (heap (handleResponsiveSpeed st) a) = spec_duration (innerWidth st)"
  by (simp add: handleResponsiveSpeed_def Let_def spec_duration_def Number_toString_speeds)

lemma setupTicker_duration:
  "ticker_track_el st = Some a \<Longrightarrow> animationSpeed st = 30 \<Longrightarrow>
   animationDuration (heap (setupTicker st) a) = spec_duration (innerWidth st)"
  by (simp add: setupTicker_found spec_duration_def Number_toString_speeds)

lemma resize_duration:
  assumes "tickerTrack st = Some a" and "animationSpeed st = 30" and "0 < resize_listeners st"
  shows "animationDuration (heap (resize w st) a) = spec_duration w"
proof -
  obtain n where n: "resize_listeners st = Suc n"
    using assms(3) by (cases "resize_listeners st") simp_all
  let ?s = "(handleResponsiveSpeed ^^ n) (st\<lparr>innerWidth := w\<rparr>)"
  have "resize w st = handleResponsiveSpeed ?s"
    by (simp add: resize_def n)
  moreover have "tickerTrack ?s = Some a" "animationSpeed ?s = 30" "innerWidth ?s = w"
    using assms(1,2) by (simp_all add: handleResponsiveSpeed_funpow)
  ultimately show ?thesis
    using handleResponsiveSpeed_duration [of ?s a] by simp
qed

subsection \<open>Loading, ordering and rendering\<close>

lemma loadAchievements_failing:
  "failing outcome \<Longrightarrow> \<exists>e. loadAchievements_try outcome st = Inl e"
  by (cases outcome) auto

lemma loadAchievements_Array:
  "ok status \<Longrightarrow>
   loadAchievements (Response status (Parsed (Array xs))) st =
     st\<lparr>achievementsData := Array_sort by_priority xs,
        console := console st @ [Log_loaded (length (Array_sort by_priority xs))]
                     @ log_items 0 (Array_sort by_priority xs)\<rparr>"
  by (simp add: loadAchievements_def Let_def)

lemma loadAchievements_falsy:
  "ok status \<Longrightarrow> \<not> truthy v \<Longrightarrow>
   loadAchievements (Response status (Parsed v)) st =
     st\<lparr>achievementsData := [], console := console st @ [Log_loaded 0]\<rparr>"
  by (simp add: loadAchievements_def Let_def)

lemma sorted_fallback: "sorted (map priority fallback)"
  by (simp add: fallback_def)

lemma sorted_loadAchievements:
  "sorted (map priority (achievementsData (loadAchievements outcome st)))"
  by (cases outcome;
      simp add: loadAchievements_def Let_def sorted_fallback sorted_Array_sort
        split: body.split js_value.split)

lemma perform_ordered:
  "ordered_call c \<Longrightarrow> sorted (map priority (achievementsData st)) \<Longrightarrow>
   sorted (map priority (achievementsData (perform c st)))"
  by (cases c)
     (simp_all add: init_def updateAchievements_def addAchievement_def removeAchievement_def
        filterByCategory_def Let_def resize_def mouseenter_def mouseleave_def
        setupTicker_fields startTicker_fields sorted_loadAchievements
        handleResponsiveSpeed_fields pauseAnimation_fields resumeAnimation_fields
        fade_in_fields timeout_fields setupEventListeners_fields sorted_Array_sort sorted_filter
        handleResponsiveSpeed_funpow pauseAnimation_funpow resumeAnimation_funpow)

lemma run_ordered:
  "list_all ordered_call calls \<Longrightarrow> sorted (map priority (achievementsData st)) \<Longrightarrow>
   sorted (map priority (achievementsData (run calls st)))"
  unfolding run_def by (induction calls arbitrary: st) (simp_all add: perform_ordered)

lemma copies_setupTicker:
  assumes "ticker_track_el st = Some a"
  shows "first_copy (heap (setupTicker st) a) = map createTickerItem (achievementsData st)"
    and "second_copy (heap (setupTicker st) a) = map createTickerItem (achievementsData st)"
  using assms by (simp_all add: first_copy_def second_copy_def setupTicker_found cloneNode_same)

lemma map_priority_of_item:
  "map priority_of_item (map createTickerItem xs) = map priority xs"
  by (simp add: priority_of_createTickerItem)

lemma startTicker_children: "children (heap (startTicker st) b) = children (heap st b)"
  by (simp add: startTicker_def Let_def split: option.split)

lemma init_children:
  "ticker_track_el st = Some a \<Longrightarrow>
   children (heap (init outcome st) a) =
     map createTickerItem (achievementsData (loadAchievements outcome st))
     @ map createTickerItem (achievementsData (loadAchievements outcome st))"
  by (simp add: init_def startTicker_children setupTicker_found loadAchievements_fields
      cloneNode_same)

lemma render_children:
  "ticker_track_el st = Some a \<Longrightarrow>
   children (heap (setupTicker (st\<lparr>achievementsData := xs\<rparr>)) a) =
     map createTickerItem xs @ map createTickerItem xs"
  by (simp add: setupTicker_found cloneNode_same)

lemma startTicker_animationDuration:
  "animationDuration (heap (startTicker st) b) = animationDuration (heap st b)"
  by (simp add: startTicker_def Let_def split: option.split)

lemma init_duration:
  "ticker_track_el st = Some a \<Longrightarrow> animationSpeed st = 30 \<Longrightarrow>
   animationDuration (heap (init outcome st) a) = spec_duration (innerWidth st)"
  using setupTicker_duration [of "loadAchievements outcome st" a]
  by (simp add: init_def startTicker_animationDuration loadAchievements_fields)

lemma setupEventListeners_duration:
  "tickerTrack st = Some a \<Longrightarrow> animationSpeed st = 30 \<Longrightarrow>
   animationDuration (heap (setupEventListeners st) a) = spec_duration (innerWidth st)"
  by (simp add: setupEventListeners_def handleResponsiveSpeed_def Let_def spec_duration_def
      Number_toString_speeds)

section \<open>Properties\<close>

subsection \<open>Rendering twice\<close>

text \<open>
  Claim C1. When the container element exists, a render leaves in it exactly twice as many
  elements as the collection has records: first the element built from each record, in
  the order of the collection, then a deep clone of each of these elements in the same
  order (a clone carries the same class, attributes and text as its original). The
  collection itself is not changed by the render.
\<close>

theorem setupTicker_renders_twice:
  assumes "ticker_track_el st = Some a"
  shows "children (heap (setupTicker st) a) =
           createTickerItems st @ map cloneNode (createTickerItems st)
       \<and> createTickerItems st = map createTickerItem (achievementsData st)
       \<and> map cloneNode (createTickerItems st) = createTickerItems st
       \<and> length (children (heap (setupTicker st) a)) = 2 * length (achievementsData st)
       \<and> achievementsData (setupTicker st) = achievementsData st"
  using assms
  by (simp add: setupTicker_found createTickerItems_def setupTicker_fields cloneNode_def)

theorem setupTicker_renders_twice_witness:
  "ticker_track_el (page\<lparr>achievementsData := [record_a, record_b]\<rparr>) = Some 0
   \<and> map textContent
         (children (heap (setupTicker (page\<lparr>achievementsData := [record_a, record_b]\<rparr>)) 0))
       = [''X'', ''Y'', ''X'', ''Y'']
   \<and> length (children (heap (setupTicker (page\<lparr>achievementsData := [record_a, record_b]\<rparr>)) 0))
       = 4"
  using setupTicker_renders_twice [of "page\<lparr>achievementsData := [record_a, record_b]\<rparr>" 0]
  by (simp add: page_def createTickerItems_def createTickerItem_def cloneNode_def
      record_a_def record_b_def)

subsection \<open>Order of the rendered elements\<close>

text \<open>
  Claim C2, as stated, fails: \<^verbatim>\<open>updateAchievements\<close> installs the list it is given without
  sorting it, and the render shows it in that order. Given the record of priority 2 before
  the record of priority 1, the first copy shows priorities 2, 1.
\<close>

theorem updateAchievements_unordered_counterexample:
  "map priority_of_item
     (first_copy (heap (updateAchievements [record_a, record_b] (constructor page)) 0)) = [2, 1]
   \<and> \<not> sorted (map priority_of_item
     (first_copy (heap (updateAchievements [record_a, record_b] (constructor page)) 0)))"
proof -
  have "ticker_track_el (constructor page\<lparr>achievementsData := [record_a, record_b]\<rparr>) = Some 0"
    by (simp add: constructor_def page_def)
  then have "first_copy (heap (updateAchievements [record_a, record_b] (constructor page)) 0) =
      map createTickerItem [record_a, record_b]"
    unfolding updateAchievements_def by (simp add: copies_setupTicker(1))
  then show ?thesis
    by (simp add: priority_of_createTickerItem record_a_def record_b_def)
qed

text \<open>
  Claim C2, amended. For every collection that is in non-decreasing priority order, the
  elements of a render are in non-decreasing priority order within each of the two
  copies. The collection is in that order at construction and stays so under every
  sequence of calls in which each \<^verbatim>\<open>updateAchievements\<close> installs a list that is in priority
  order (the loader and \<^verbatim>\<open>addAchievement\<close> sort, \<^verbatim>\<open>removeAchievement\<close> and \<^verbatim>\<open>filterByCategory\<close>
  keep the order); \<^verbatim>\<open>updateAchievements\<close> installs the list it is given as it is.
\<close>

theorem ordered_collection_renders_in_order:
  assumes "sorted (map priority (achievementsData st))"
  shows "(ticker_track_el st = Some a \<longrightarrow>
            sorted (map priority_of_item (first_copy (heap (setupTicker st) a)))
          \<and> sorted (map priority_of_item (second_copy (heap (setupTicker st) a))))
       \<and> (list_all ordered_call calls \<longrightarrow>
            sorted (map priority (achievementsData (run calls st))))
       \<and> sorted (map priority (achievementsData (constructor env)))
       \<and> achievementsData (updateAchievements newAchievements st) = newAchievements"
  using assms
  by (simp add: copies_setupTicker priority_of_createTickerItem o_def run_ordered
      constructor_def updateAchievements_def setupTicker_fields)

theorem ordered_collection_renders_in_order_witness:
  "sorted (map priority (achievementsData (page\<lparr>achievementsData := [record_b, record_a]\<rparr>)))
   \<and> ticker_track_el (page\<lparr>achievementsData := [record_b, record_a]\<rparr>) = Some 0
   \<and> map priority_of_item
        (first_copy (heap (setupTicker (page\<lparr>achievementsData := [record_b, record_a]\<rparr>)) 0)) = [1, 2]
   \<and> list_all ordered_call [AddAchievement record_a, FilterByCategory ''c'']
   \<and> sorted (map priority (achievementsData
        (run [AddAchievement record_a, FilterByCategory ''c'']
           (page\<lparr>achievementsData := [record_b, record_a]\<rparr>))))"
proof -
  let ?st = "page\<lparr>achievementsData := [record_b, record_a]\<rparr>"
  have s: "sorted (map priority (achievementsData ?st))"
    by (simp add: record_a_def record_b_def)
  have t: "ticker_track_el ?st = Some 0"
    by (simp add: page_def)
  have c: "list_all ordered_call [AddAchievement record_a, FilterByCategory ''c'']"
    by simp
  have "map priority_of_item (first_copy (heap (setupTicker ?st) 0)) = [1, 2]"
    using t by (simp add: copies_setupTicker(1) priority_of_createTickerItem
        record_a_def record_b_def)
  then show ?thesis
    using s t c
      ordered_collection_renders_in_order
        [OF s, of 0 "[AddAchievement record_a, FilterByCategory ''c'']"]
    by simp
qed

subsection \<open>Filtering overwrites the collection\<close>

text \<open>
  Claim C3. For a category \<open>c\<close> other than \<^verbatim>\<open>"all"\<close>, \<^verbatim>\<open>filterByCategory(c)\<close> followed by
  \<^verbatim>\<open>filterByCategory("all")\<close> leaves, and renders, only the records of the collection whose
  category is \<open>c\<close>: what remained after the first filter, not the collection held before.
\<close>

theorem filter_all_after_filter:
  assumes "c \<noteq> ''all''"
  shows "achievementsData (filterByCategory ''all'' (filterByCategory c st)) =
           filter (\<lambda>r. category r = c) (achievementsData st)
       \<and> (ticker_track_el st = Some a \<longrightarrow>
            children (heap (filterByCategory ''all'' (filterByCategory c st)) a) =
              map createTickerItem (filter (\<lambda>r. category r = c) (achievementsData st))
              @ map createTickerItem (filter (\<lambda>r. category r = c) (achievementsData st)))"
  using assms
  by (simp add: filterByCategory_def updateAchievements_def setupTicker_fields render_children)

theorem filter_all_after_filter_witness:
  "''project'' \<noteq> ''all''
   \<and> map id' (achievementsData (page\<lparr>achievementsData := fallback\<rparr>))
       = [''fallback-1'', ''fallback-2'', ''fallback-3'']
   \<and> map id' (achievementsData (filterByCategory ''all''
        (filterByCategory ''project'' (page\<lparr>achievementsData := fallback\<rparr>)))) = [''fallback-2'']
   \<and> map data_id (children (heap (filterByCategory ''all''
        (filterByCategory ''project'' (page\<lparr>achievementsData := fallback\<rparr>))) 0))
       = [''fallback-2'', ''fallback-2'']"
proof -
  have t: "ticker_track_el (page\<lparr>achievementsData := fallback\<rparr>) = Some 0"
    by (simp add: page_def)
  have n: "''project'' \<noteq> ''all''" by simp
  show ?thesis
    using t filter_all_after_filter [OF n, of "page\<lparr>achievementsData := fallback\<rparr>" 0]
    by (simp add: fallback_def createTickerItem_def)
qed

text \<open>
  Claim C9. For a category \<open>c\<close> other than \<^verbatim>\<open>"all"\<close> that no record of the collection has,
  \<^verbatim>\<open>filterByCategory(c)\<close> leaves the empty collection, and a following
  \<^verbatim>\<open>filterByCategory("all")\<close> still leaves and renders no record. The records are lost to
  the widget: the state after the filter is the one an empty collection would have given,
  so every later sequence of calls runs as it would have from there.
\<close>

theorem filter_without_match_empties:
  assumes "c \<noteq> ''all''" and "\<forall>r \<in> set (achievementsData st). category r \<noteq> c"
  shows "achievementsData (filterByCategory c st) = []
       \<and> achievementsData (filterByCategory ''all'' (filterByCategory c st)) = []
       \<and> (ticker_track_el st = Some a \<longrightarrow>
            children (heap (filterByCategory c st) a) = []
          \<and> children (heap (filterByCategory ''all'' (filterByCategory c st)) a) = [])
       \<and> run calls (filterByCategory c st) =
           run calls (filterByCategory c (st\<lparr>achievementsData := []\<rparr>))"
proof -
  have e: "filter (\<lambda>r. category r = c) (achievementsData st) = []"
    using assms(2) by (simp add: filter_empty_conv)
  show ?thesis
    using assms(1) e
    by (simp add: filterByCategory_def updateAchievements_def setupTicker_fields render_children)
qed

theorem filter_without_match_empties_witness:
  "''award'' \<noteq> ''all''
   \<and> list_all (\<lambda>r. category r \<noteq> ''award'') fallback
   \<and> achievementsData (loadAchievements Rejected (constructor page)) = fallback
   \<and> achievementsData (filterByCategory ''award'' (loadAchievements Rejected (constructor page))) = []
   \<and> children (heap (filterByCategory ''all''
        (filterByCategory ''award'' (loadAchievements Rejected (constructor page)))) 0) = []"
proof -
  let ?st = "loadAchievements Rejected (constructor page)"
  have d: "achievementsData ?st = fallback"
    by (simp add: loadAchievements_def)
  have t: "ticker_track_el ?st = Some 0"
    by (simp add: loadAchievements_fields constructor_def page_def)
  have n: "''award'' \<noteq> ''all''" by simp
  have m: "\<forall>r \<in> set (achievementsData ?st). category r \<noteq> ''award''"
    unfolding d by (simp add: fallback_def)
  have l: "list_all (\<lambda>r. category r \<noteq> ''award'') fallback"
    by (simp add: fallback_def)
  show ?thesis
    using d t l filter_without_match_empties [OF n m, of 0] by simp
qed

subsection \<open>Loading\<close>

text \<open>
  Claim C4, as stated, fails: a response with status 200 whose body has no field
  \<^verbatim>\<open>achievements\<close> leaves the empty collection, which is not the fallback sequence.
\<close>

theorem missing_field_counterexample:
  "ok 200
   \<and> achievementsData (loadAchievements (Response 200 (Parsed Undefined)) (constructor page)) = []
   \<and> achievementsData (loadAchievements (Response 200 (Parsed Undefined)) (constructor page))
       \<noteq> fallback"
  by (simp add: ok_def loadAchievements_def fallback_def)

text \<open>
  Claim C4, amended. If the fetch succeeds with a parseable body, other than \<^verbatim>\<open>null\<close>, in
  which the field \<^verbatim>\<open>achievements\<close> is missing, the \<^verbatim>\<open>try\<close> block completes without an error:
  the collection is the empty sequence, not the fallback, a count of 0 is logged, and the
  render that follows shows no element.
\<close>

theorem missing_field_gives_empty:
  assumes "ok status"
  shows "loadAchievements_try (Response status (Parsed Undefined)) st =
           Inr (st\<lparr>achievementsData := [], console := console st @ [Log_loaded 0]\<rparr>)
       \<and> achievementsData (loadAchievements (Response status (Parsed Undefined)) st) = []
       \<and> achievementsData (loadAchievements (Response status (Parsed Undefined)) st) \<noteq> fallback
       \<and> console (loadAchievements (Response status (Parsed Undefined)) st) =
           console st @ [Log_loaded 0]
       \<and> (ticker_track_el st = Some a \<longrightarrow>
            children (heap (init (Response status (Parsed Undefined)) st) a) = [])"
  using assms
  by (simp add: loadAchievements_def init_children fallback_def)

theorem missing_field_gives_empty_witness:
  "ok 200
   \<and> achievementsData (loadAchievements (Response 200 (Parsed Undefined)) (constructor page)) = []
   \<and> console (loadAchievements (Response 200 (Parsed Undefined)) (constructor page)) = [Log_loaded 0]
   \<and> children (heap (init (Response 200 (Parsed Undefined)) (constructor page)) 0) = []"
proof -
  have k: "ok 200" by (simp add: ok_def)
  have t: "ticker_track_el (constructor page) = Some 0"
    by (simp add: constructor_def page_def)
  have c: "console (constructor page) = []"
    by (simp add: constructor_def page_def)
  show ?thesis
    using k t c missing_field_gives_empty [OF k, of "constructor page" 0] by simp
qed

text \<open>
  Claim C5. For every failing fetch (the promise rejects, the status is not in 200 to 299,
  or the body is not parseable) the \<^verbatim>\<open>try\<close> block throws, the error is logged, and
  \<^verbatim>\<open>loadAchievements\<close> returns normally with the collection equal to the fallback sequence,
  which has at least 3 records; nothing but the collection and the console has changed,
  and \<^verbatim>\<open>init\<close> goes on to render the fallback.
\<close>

theorem failing_fetch_gives_fallback:
  assumes "failing outcome"
  shows "(\<exists>e. loadAchievements_try outcome st = Inl e
             \<and> console (loadAchievements outcome st) = console st @ [Error_loading e])
       \<and> achievementsData (loadAchievements outcome st) = fallback
       \<and> (loadAchievements outcome st)\<lparr>achievementsData := achievementsData st,
            console := console st\<rparr> = st
       \<and> 3 \<le> length fallback
       \<and> (ticker_track_el st = Some a \<longrightarrow>
            children (heap (init outcome st) a) =
              map createTickerItem fallback @ map createTickerItem fallback)"
proof -
  obtain e where e: "loadAchievements_try outcome st = Inl e"
    using loadAchievements_failing [OF assms] by blast
  have l: "loadAchievements outcome st =
      st\<lparr>achievementsData := fallback, console := console st @ [Error_loading e]\<rparr>"
    by (simp add: loadAchievements_def e)
  have "achievementsData (loadAchievements outcome st) = fallback"
    by (simp add: l)
  then have "ticker_track_el st = Some a \<longrightarrow>
      children (heap (init outcome st) a) =
        map createTickerItem fallback @ map createTickerItem fallback"
    by (simp add: init_children)
  moreover have "3 \<le> length fallback"
    by (simp add: fallback_def)
  ultimately show ?thesis
    using e by (simp add: l)
qed

theorem failing_fetch_gives_fallback_witness:
  "failing (Response 500 (Parsed (Array [record_a])))
   \<and> failing Rejected
   \<and> failing (Response 200 Unparseable)
   \<and> achievementsData (loadAchievements (Response 500 (Parsed (Array [record_a]))) (constructor page))
       = fallback
   \<and> achievementsData (loadAchievements Rejected (constructor page)) = fallback
   \<and> achievementsData (loadAchievements (Response 200 Unparseable) (constructor page)) = fallback
   \<and> console (loadAchievements (Response 500 (Parsed (Array [record_a]))) (constructor page))
       = [Error_loading (HttpError 500)]
   \<and> length (children (heap (init Rejected (constructor page)) 0)) = 6"
proof -
  have f: "failing (Response 500 (Parsed (Array [record_a])))" "failing Rejected"
    "failing (Response 200 Unparseable)"
    by (simp_all add: ok_def)
  have t: "ticker_track_el (constructor page) = Some 0"
    by (simp add: constructor_def page_def)
  have c: "console (loadAchievements (Response 500 (Parsed (Array [record_a]))) (constructor page))
      = [Error_loading (HttpError 500)]"
    by (simp add: loadAchievements_def ok_def constructor_def page_def)
  show ?thesis
    using f t c
      failing_fetch_gives_fallback [OF f(1), of "constructor page" 0]
      failing_fetch_gives_fallback [OF f(2), of "constructor page" 0]
      failing_fetch_gives_fallback [OF f(3), of "constructor page" 0]
    by (simp add: fallback_def)
qed

text \<open>
  Claim C6. The loader sorts the loaded array by priority only, ascending and stably: the
  result is the stable sort by the key \<open>priority\<close>, it is in non-decreasing priority order,
  it has the same records, and the records of any one priority keep their relative
  order. The payload with record \<open>a\<close> (text X, priority 2) before record \<open>b\<close> (text Y,
  priority 1) renders as Y, X, Y, X, that is b, a, b, a.
\<close>

theorem loader_sort_stable:
  assumes "ok status"
  shows "achievementsData (loadAchievements (Response status (Parsed (Array xs))) st) =
           Array_sort by_priority xs
       \<and> Array_sort by_priority xs = sort_key priority xs
       \<and> sorted (map priority (Array_sort by_priority xs))
       \<and> mset (Array_sort by_priority xs) = mset xs
       \<and> filter (\<lambda>r. priority r = k) (Array_sort by_priority xs) =
           filter (\<lambda>r. priority r = k) xs
       \<and> (ticker_track_el st = Some a \<longrightarrow>
            map textContent (children (heap (init scenario st) a)) = [''Y'', ''X'', ''Y'', ''X'']
          \<and> map data_id (children (heap (init scenario st) a)) = [''b'', ''a'', ''b'', ''a''])"
proof -
  have "achievementsData (loadAchievements scenario st) = [record_b, record_a]"
    by (simp add: scenario_def loadAchievements_Array ok_def by_priority_def
        record_a_def record_b_def)
  then have "ticker_track_el st = Some a \<longrightarrow>
      map textContent (children (heap (init scenario st) a)) = [''Y'', ''X'', ''Y'', ''X'']
    \<and> map data_id (children (heap (init scenario st) a)) = [''b'', ''a'', ''b'', ''a'']"
    by (simp add: init_children createTickerItem_def record_a_def record_b_def)
  then show ?thesis
    using assms
    by (simp add: loadAchievements_Array sorted_Array_sort mset_Array_sort stable_Array_sort
        Array_sort_by_priority [symmetric])
qed

theorem loader_sort_stable_witness:
  "ok 200
   \<and> achievementsData (loadAchievements (Response 200 (Parsed (Array [record_a, record_b])))
        (constructor page)) = [record_b, record_a]
   \<and> map textContent (children (heap (init scenario (constructor page)) 0))
       = [''Y'', ''X'', ''Y'', ''X'']"
proof -
  have k: "ok 200" by (simp add: ok_def)
  have t: "ticker_track_el (constructor page) = Some 0"
    by (simp add: constructor_def page_def)
  have s: "Array_sort by_priority [record_a, record_b] = [record_b, record_a]"
    by (simp add: by_priority_def record_a_def record_b_def)
  note inst = loader_sort_stable [OF k, of "[record_a, record_b]" "constructor page" 1 0]
  have a: "achievementsData (loadAchievements (Response 200 (Parsed (Array [record_a, record_b])))
        (constructor page)) = Array_sort by_priority [record_a, record_b]"
    using inst by (rule conjunct1)
  have b: "map textContent (children (heap (init scenario (constructor page)) 0))
       = [''Y'', ''X'', ''Y'', ''X'']"
    using inst t by blast
  show ?thesis
    unfolding a s using k b by simp
qed

subsection \<open>Adding and removing\<close>

text \<open>
  Claim C7, as stated, fails: \<^verbatim>\<open>removeAchievement\<close> removes every record with the given id.
  With one record of id \<^verbatim>\<open>a\<close> rendered, adding a record of id \<^verbatim>\<open>a\<close> and removing id \<^verbatim>\<open>a\<close>
  leaves nothing rendered.
\<close>

theorem add_remove_counterexample:
  "map textContent (children (heap (setupTicker (page\<lparr>achievementsData := [record_a]\<rparr>)) 0))
     = [''X'', ''X'']
   \<and> children (heap (removeAchievement (id' record_a)
        (addAchievement record_a (setupTicker (page\<lparr>achievementsData := [record_a]\<rparr>)))) 0) = []"
proof -
  have t: "ticker_track_el (page\<lparr>achievementsData := [record_a]\<rparr>) = Some 0"
    by (simp add: page_def)
  have "map textContent (children (heap (setupTicker (page\<lparr>achievementsData := [record_a]\<rparr>)) 0))
     = [''X'', ''X'']"
    using t by (simp add: setupTicker_found cloneNode_same createTickerItem_def record_a_def)
  moreover have "children (heap (removeAchievement (id' record_a)
        (addAchievement record_a (setupTicker (page\<lparr>achievementsData := [record_a]\<rparr>)))) 0) = []"
    using t
    by (simp add: removeAchievement_def addAchievement_def setupTicker_fields render_children
        by_priority_def)
  ultimately show ?thesis by simp
qed

text \<open>
  Claim C7, amended. For every collection and every record \<open>r\<close> whose id no record of the
  collection has, starting from a rendered state, \<^verbatim>\<open>addAchievement(r)\<close> followed by
  \<^verbatim>\<open>removeAchievement(r.id)\<close> leaves the collection equal to the stable priority sort of the
  prior collection, so the rendered elements are those rendered before the add, as a
  multiset; when the prior collection was in priority order the collection and the
  rendered elements are the same lists as before.
\<close>

theorem add_then_remove_fresh_id:
  assumes "\<forall>x \<in> set (achievementsData st). id' x \<noteq> id' r"
    and "ticker_track_el st = Some a"
  shows "achievementsData (removeAchievement (id' r) (addAchievement r (setupTicker st))) =
           Array_sort by_priority (achievementsData st)
       \<and> mset (children (heap (removeAchievement (id' r) (addAchievement r (setupTicker st))) a)) =
           mset (children (heap (setupTicker st) a))
       \<and> (sorted (map priority (achievementsData st)) \<longrightarrow>
            achievementsData (removeAchievement (id' r) (addAchievement r (setupTicker st))) =
              achievementsData st
          \<and> children (heap (removeAchievement (id' r) (addAchievement r (setupTicker st))) a) =
              children (heap (setupTicker st) a))"
proof -
  let ?xs = "achievementsData st"
  let ?after = "removeAchievement (id' r) (addAchievement r (setupTicker st))"
  have keep: "filter (\<lambda>x. id' x \<noteq> id' r) ?xs = ?xs"
    using assms(1) by (simp add: filter_id_conv)
  have data: "achievementsData ?after = Array_sort by_priority ?xs"
    by (simp add: removeAchievement_def addAchievement_def setupTicker_fields
        filter_Array_sort keep)
  have el: "ticker_track_el (addAchievement r (setupTicker st)) = Some a"
    using assms(2) by (simp add: addAchievement_def setupTicker_fields)
  have after: "children (heap ?after a) =
      map createTickerItem (Array_sort by_priority ?xs)
      @ map createTickerItem (Array_sort by_priority ?xs)"
    using el data
    by (simp add: removeAchievement_def render_children setupTicker_fields)
  have before: "children (heap (setupTicker st) a) =
      map createTickerItem ?xs @ map createTickerItem ?xs"
    using assms(2) by (simp add: setupTicker_found cloneNode_same)
  have "mset (children (heap ?after a)) = mset (children (heap (setupTicker st) a))"
    by (simp add: after before mset_Array_sort)
  then show ?thesis
    by (simp add: data after before Array_sort_sorted)
qed

theorem add_then_remove_fresh_id_witness:
  "list_all (\<lambda>x. id' x \<noteq> id' record_a) (achievementsData (page\<lparr>achievementsData := [record_b]\<rparr>))
   \<and> ticker_track_el (page\<lparr>achievementsData := [record_b]\<rparr>) = Some 0
   \<and> achievementsData (removeAchievement (id' record_a)
        (addAchievement record_a (setupTicker (page\<lparr>achievementsData := [record_b]\<rparr>))))
       = [record_b]
   \<and> children (heap (removeAchievement (id' record_a)
        (addAchievement record_a (setupTicker (page\<lparr>achievementsData := [record_b]\<rparr>)))) 0)
       = children (heap (setupTicker (page\<lparr>achievementsData := [record_b]\<rparr>)) 0)"
proof -
  let ?st = "page\<lparr>achievementsData := [record_b]\<rparr>"
  have m: "\<forall>x \<in> set (achievementsData ?st). id' x \<noteq> id' record_a"
    by (simp add: record_a_def record_b_def)
  have t: "ticker_track_el ?st = Some 0"
    by (simp add: page_def)
  show ?thesis
    using m t add_then_remove_fresh_id [OF m t] by simp
qed

subsection \<open>The responsive speed\<close>

text \<open>
  Claim C8. In every state the widget reaches after construction, each evaluation of the
  speed rule at viewport width \<open>w\<close> sets the track's animation duration to 15s when \<open>w\<close> is
  at most 480, to 20s when \<open>w\<close> is above 480 and at most 768, and to 30s otherwise. When
  the document has the track element, that holds for the evaluation on attach made by
  every render: the first one, made by \<^verbatim>\<open>init\<close> while the widget holds no track yet, and those
  of \<^verbatim>\<open>setupTicker\<close> and the four public methods. When the widget holds the track, it holds
  for a direct call of \<^verbatim>\<open>handleResponsiveSpeed\<close>, for \<^verbatim>\<open>setupEventListeners\<close>, for a render and
  for a resize event. Widths 400, 600 and 1024 give 15s, 20s and 30s.
\<close>

theorem responsive_speed_rule:
  assumes "st = run calls (constructor env)"
  shows "(ticker_track_el st = Some a \<longrightarrow>
            animationDuration (heap (init outcome (st\<lparr>innerWidth := w\<rparr>)) a) = spec_duration w
          \<and> animationDuration (heap (setupTicker (st\<lparr>innerWidth := w\<rparr>)) a) = spec_duration w
          \<and> animationDuration (heap (updateAchievements newAchievements (st\<lparr>innerWidth := w\<rparr>)) a)
              = spec_duration w
          \<and> animationDuration (heap (addAchievement achievement (st\<lparr>innerWidth := w\<rparr>)) a)
              = spec_duration w
          \<and> animationDuration (heap (removeAchievement achievementId (st\<lparr>innerWidth := w\<rparr>)) a)
              = spec_duration w
          \<and> animationDuration (heap (filterByCategory c (st\<lparr>innerWidth := w\<rparr>)) a)
              = spec_duration w)
       \<and> (tickerTrack st = Some a \<longrightarrow>
            animationDuration (heap (handleResponsiveSpeed (st\<lparr>innerWidth := w\<rparr>)) a) = spec_duration w
          \<and> animationDuration (heap (setupEventListeners (st\<lparr>innerWidth := w\<rparr>)) a) = spec_duration w
          \<and> animationDuration (heap (setupTicker (st\<lparr>innerWidth := w\<rparr>)) a) = spec_duration w
          \<and> animationDuration (heap (resize w st) a) = spec_duration w)
       \<and> spec_duration 400 = ''15s'' \<and> spec_duration 600 = ''20s'' \<and> spec_duration 1024 = ''30s''"
proof -
  have speed: "animationSpeed st = 30"
    by (simp add: assms run_animationSpeed constructor_def)
  have att: "attached st"
    unfolding assms by (rule run_attached) (rule attached_constructor)
  have render: "animationDuration (heap (setupTicker (st\<lparr>innerWidth := w, achievementsData := xs\<rparr>)) a)
      = spec_duration w" if "ticker_track_el st = Some a" for xs
    using setupTicker_duration [of "st\<lparr>innerWidth := w, achievementsData := xs\<rparr>" a] that speed
    by simp
  have first: "ticker_track_el st = Some a \<longrightarrow>
            animationDuration (heap (init outcome (st\<lparr>innerWidth := w\<rparr>)) a) = spec_duration w
          \<and> animationDuration (heap (setupTicker (st\<lparr>innerWidth := w\<rparr>)) a) = spec_duration w
          \<and> animationDuration (heap (updateAchievements newAchievements (st\<lparr>innerWidth := w\<rparr>)) a)
              = spec_duration w
          \<and> animationDuration (heap (addAchievement achievement (st\<lparr>innerWidth := w\<rparr>)) a)
              = spec_duration w
          \<and> animationDuration (heap (removeAchievement achievementId (st\<lparr>innerWidth := w\<rparr>)) a)
              = spec_duration w
          \<and> animationDuration (heap (filterByCategory c (st\<lparr>innerWidth := w\<rparr>)) a)
              = spec_duration w"
  proof
    assume el: "ticker_track_el st = Some a"
    have "animationDuration (heap (init outcome (st\<lparr>innerWidth := w\<rparr>)) a) = spec_duration w"
      using init_duration [of "st\<lparr>innerWidth := w\<rparr>" a outcome] el speed by simp
    moreover have "animationDuration (heap (setupTicker (st\<lparr>innerWidth := w\<rparr>)) a) = spec_duration w"
      using setupTicker_duration [of "st\<lparr>innerWidth := w\<rparr>" a] el speed by simp
    ultimately show "animationDuration (heap (init outcome (st\<lparr>innerWidth := w\<rparr>)) a) = spec_duration w
          \<and> animationDuration (heap (setupTicker (st\<lparr>innerWidth := w\<rparr>)) a) = spec_duration w
          \<and> animationDuration (heap (updateAchievements newAchievements (st\<lparr>innerWidth := w\<rparr>)) a)
              = spec_duration w
          \<and> animationDuration (heap (addAchievement achievement (st\<lparr>innerWidth := w\<rparr>)) a)
              = spec_duration w
          \<and> animationDuration (heap (removeAchievement achievementId (st\<lparr>innerWidth := w\<rparr>)) a)
              = spec_duration w
          \<and> animationDuration (heap (filterByCategory c (st\<lparr>innerWidth := w\<rparr>)) a)
              = spec_duration w"
      using render [OF el]
      by (simp add: updateAchievements_def addAchievement_def removeAchievement_def
          filterByCategory_def Let_def)
  qed
  have second: "tickerTrack st = Some a \<longrightarrow>
            animationDuration (heap (handleResponsiveSpeed (st\<lparr>innerWidth := w\<rparr>)) a) = spec_duration w
          \<and> animationDuration (heap (setupEventListeners (st\<lparr>innerWidth := w\<rparr>)) a) = spec_duration w
          \<and> animationDuration (heap (setupTicker (st\<lparr>innerWidth := w\<rparr>)) a) = spec_duration w
          \<and> animationDuration (heap (resize w st) a) = spec_duration w"
  proof
    assume tr: "tickerTrack st = Some a"
    with att have el: "ticker_track_el st = Some a" and n: "0 < resize_listeners st"
      by (auto simp: attached_def)
    have "animationDuration (heap (handleResponsiveSpeed (st\<lparr>innerWidth := w\<rparr>)) a) = spec_duration w"
      using handleResponsiveSpeed_duration [of "st\<lparr>innerWidth := w\<rparr>" a] tr speed by simp
    moreover have "animationDuration (heap (setupEventListeners (st\<lparr>innerWidth := w\<rparr>)) a)
        = spec_duration w"
      using setupEventListeners_duration [of "st\<lparr>innerWidth := w\<rparr>" a] tr speed by simp
    moreover have "animationDuration (heap (setupTicker (st\<lparr>innerWidth := w\<rparr>)) a) = spec_duration w"
      using setupTicker_duration [of "st\<lparr>innerWidth := w\<rparr>" a] el speed by simp
    moreover have "animationDuration (heap (resize w st) a) = spec_duration w"
      using resize_duration [OF tr speed n] .
    ultimately show "animationDuration (heap (handleResponsiveSpeed (st\<lparr>innerWidth := w\<rparr>)) a) = spec_duration w
          \<and> animationDuration (heap (setupEventListeners (st\<lparr>innerWidth := w\<rparr>)) a) = spec_duration w
          \<and> animationDuration (heap (setupTicker (st\<lparr>innerWidth := w\<rparr>)) a) = spec_duration w
          \<and> animationDuration (heap (resize w st) a) = spec_duration w"
      by simp
  qed
  have "spec_duration 400 = ''15s'' \<and> spec_duration 600 = ''20s'' \<and> spec_duration 1024 = ''30s''"
    by (simp add: spec_duration_def)
  with first second show ?thesis by blast
qed

theorem responsive_speed_rule_witness:
  "tickerTrack (run [] (constructor page)) = None
   \<and> ticker_track_el (run [] (constructor page)) = Some 0
   \<and> animationDuration (heap (init scenario ((run [] (constructor page))\<lparr>innerWidth := 400\<rparr>)) 0) = ''15s''
   \<and> animationDuration (heap (init scenario ((run [] (constructor page))\<lparr>innerWidth := 600\<rparr>)) 0) = ''20s''
   \<and> animationDuration (heap (init scenario ((run [] (constructor page))\<lparr>innerWidth := 1024\<rparr>)) 0) = ''30s''
   \<and> tickerTrack (run [Init scenario] (constructor page)) = Some 0
   \<and> animationDuration (heap (resize 400 (run [Init scenario] (constructor page))) 0) = ''15s''
   \<and> animationDuration (heap (resize 600 (run [Init scenario] (constructor page))) 0) = ''20s''
   \<and> animationDuration (heap (resize 1024 (run [Init scenario] (constructor page))) 0) = ''30s''"
proof -
  have none: "tickerTrack (run [] (constructor page)) = None"
    by (simp add: run_def constructor_def)
  have el: "ticker_track_el (run [] (constructor page)) = Some 0"
    by (simp add: run_def constructor_def page_def)
  have track: "tickerTrack (run [Init scenario] (constructor page)) = Some 0"
    by (simp add: run_def init_def startTicker_fields setupTicker_fields
        loadAchievements_fields constructor_def page_def)
  show ?thesis
    using none el track
      responsive_speed_rule [OF refl, of "[]" page 0 scenario 400]
      responsive_speed_rule [OF refl, of "[]" page 0 scenario 600]
      responsive_speed_rule [OF refl, of "[]" page 0 scenario 1024]
      responsive_speed_rule [OF refl, of "[Init scenario]" page 0 _ 400]
      responsive_speed_rule [OF refl, of "[Init scenario]" page 0 _ 600]
      responsive_speed_rule [OF refl, of "[Init scenario]" page 0 _ 1024]
    by (simp add: spec_duration_def)
qed

subsection \<open>What the interaction controller leaves alone\<close>

text \<open>
  Claim C10. \<^verbatim>\<open>pauseAnimation\<close>, \<^verbatim>\<open>resumeAnimation\<close> and \<^verbatim>\<open>handleResponsiveSpeed\<close> change neither
  the collection nor the children of any element. Pausing and resuming change nothing but
  the play state of an element (putting the old play state back gives the old element,
  and putting the old store back gives the old state); \<^verbatim>\<open>handleResponsiveSpeed\<close> changes
  nothing but the animation duration of an element. The element changed is the track the
  widget holds; every other element stays as it is.
\<close>

theorem controller_frame:
  "achievementsData (pauseAnimation st) = achievementsData st
   \<and> children (heap (pauseAnimation st) b) = children (heap st b)
   \<and> (heap (pauseAnimation st) b)\<lparr>animationPlayState := animationPlayState (heap st b)\<rparr> = heap st b
   \<and> (pauseAnimation st)\<lparr>heap := heap st\<rparr> = st
   \<and> achievementsData (resumeAnimation st) = achievementsData st
   \<and> children (heap (resumeAnimation st) b) = children (heap st b)
   \<and> (heap (resumeAnimation st) b)\<lparr>animationPlayState := animationPlayState (heap st b)\<rparr> = heap st b
   \<and> (resumeAnimation st)\<lparr>heap := heap st\<rparr> = st
   \<and> achievementsData (handleResponsiveSpeed st) = achievementsData st
   \<and> children (heap (handleResponsiveSpeed st) b) = children (heap st b)
   \<and> (heap (handleResponsiveSpeed st) b)\<lparr>animationDuration := animationDuration (heap st b)\<rparr> = heap st b
   \<and> (handleResponsiveSpeed st)\<lparr>heap := heap st\<rparr> = st
   \<and> heap (pauseAnimation st) b =
       (if tickerTrack st = Some b then (heap st b)\<lparr>animationPlayState := ''paused''\<rparr>
        else heap st b)
   \<and> heap (resumeAnimation st) b =
       (if tickerTrack st = Some b then (heap st b)\<lparr>animationPlayState := ''running''\<rparr>
        else heap st b)
   \<and> heap (handleResponsiveSpeed st) b =
       (if tickerTrack st = Some b
        then (heap st b)\<lparr>animationDuration := animationDuration (heap (handleResponsiveSpeed st) b)\<rparr>
        else heap st b)"
  by (simp add: pauseAnimation_def resumeAnimation_def handleResponsiveSpeed_def Let_def
      split: option.split)

end
